theory Spec2Isabelle
  imports Complex_Main
begin

section \<open>Numbers and errors\<close>

text \<open>
  The retirement engine computes with Python \<^verbatim>\<open>float\<close> (IEEE doubles) and with
  \<^verbatim>\<open>Decimal\<close> (28 significant digits, default context). A value of either type is a
  number, an infinity or a NaN.

  What is modelled: the special values and how they arise and propagate; the overflow of
  a double to an infinity; the exceptions the operators raise (division by zero, and the
  \<^verbatim>\<open>InvalidOperation\<close> of \<^verbatim>\<open>Decimal\<close>). What is not modelled: the rounding of a
  result to the 53-bit significand of a double (gradual underflow near zero included) or
  to the 28 digits of a \<^verbatim>\<open>Decimal\<close>, and the exponent limit of \<^verbatim>\<open>Decimal\<close>; finite
  results are exact rationals. A number that the profile or the scenario supplies is
  finite; \<^verbatim>\<open>Decimal(str(x))\<close> of a finite number is that number.

  Ages and year counts are Python integers, modelled by \<open>int\<close>.

  Exceptions are values of \<open>py_error\<close>; a function that can raise returns
  \<open>py_error + 'a\<close>, with \<open>Inl\<close> for the exception.
\<close>

datatype py_error =
    UnboundLocalError
  | DivisionByZero
  | InvalidOperation
  | ZeroDivisionError
  | AttributeError
  | HTTPException nat

datatype py_num = Finite rat | PosInf | NegInf | NaN

subsection \<open>float\<close>

text \<open>The least magnitude that rounds to an infinity: \<open>2 ^ 1024 - 2 ^ 970\<close>, halfway
  between the largest double and \<open>2 ^ 1024\<close> (about \<open>1.7977 * 10 ^ 308\<close>), written
  out so that comparisons with it evaluate at once.\<close>

definition FLOAT_OVERFLOW :: rat where
  "FLOAT_OVERFLOW =
     179769313486231580793728971405303415079934132710037826936173778980444968292764750946649017977587207096330286416692887910946555547851940402630657488671505820681908902000708383676273854845817711531764475730270069855571366959622842914819860834936475292719074168444365510704342711559699508093042880177904174497792"

text \<open>The double an exact result becomes, as far as its range goes.\<close>

definition fl :: "rat \<Rightarrow> py_num" where
  "fl x = (if x \<ge> FLOAT_OVERFLOW then PosInf
           else if x \<le> - FLOAT_OVERFLOW then NegInf
           else Finite x)"

fun num_neg :: "py_num \<Rightarrow> py_num" where
  "num_neg (Finite x) = Finite (- x)"
| "num_neg PosInf = NegInf"
| "num_neg NegInf = PosInf"
| "num_neg NaN = NaN"

fun f_add :: "py_num \<Rightarrow> py_num \<Rightarrow> py_num" where
  "f_add NaN b = NaN"
| "f_add a NaN = NaN"
| "f_add (Finite x) (Finite y) = fl (x + y)"
| "f_add PosInf NegInf = NaN"
| "f_add NegInf PosInf = NaN"
| "f_add PosInf b = PosInf"
| "f_add NegInf b = NegInf"
| "f_add (Finite x) b = b"

definition f_sub :: "py_num \<Rightarrow> py_num \<Rightarrow> py_num" where
  "f_sub a b = f_add a (num_neg b)"

text \<open>The sign of an infinity times a finite factor; zero times an infinity is NaN.\<close>

definition inf_times :: "py_num \<Rightarrow> rat \<Rightarrow> py_num" where
  "inf_times i x = (if x = 0 then NaN else if x > 0 then i else num_neg i)"

fun f_mul :: "py_num \<Rightarrow> py_num \<Rightarrow> py_num" where
  "f_mul NaN b = NaN"
| "f_mul a NaN = NaN"
| "f_mul (Finite x) (Finite y) = fl (x * y)"
| "f_mul (Finite x) b = inf_times b x"
| "f_mul a (Finite y) = inf_times a y"
| "f_mul PosInf b = b"
| "f_mul NegInf b = num_neg b"

text \<open>\<^verbatim>\<open>a / c\<close> for a literal \<open>c\<close> that is not zero (Python raises
  \<^verbatim>\<open>ZeroDivisionError\<close> for a zero divisor only).\<close>

fun f_div_literal :: "py_num \<Rightarrow> rat \<Rightarrow> py_num" where
  "f_div_literal (Finite x) c = fl (x / c)"
| "f_div_literal NaN c = NaN"
| "f_div_literal i c = inf_times i c"

text \<open>Comparisons: every comparison with a NaN is false.\<close>

fun f_lt :: "py_num \<Rightarrow> py_num \<Rightarrow> bool" where
  "f_lt NaN b = False"
| "f_lt a NaN = False"
| "f_lt (Finite x) (Finite y) = (x < y)"
| "f_lt a NegInf = False"
| "f_lt PosInf b = False"
| "f_lt NegInf b = True"
| "f_lt a PosInf = True"

definition f_gt :: "py_num \<Rightarrow> py_num \<Rightarrow> bool" where
  "f_gt a b = f_lt b a"

definition f_le :: "py_num \<Rightarrow> py_num \<Rightarrow> bool" where
  "f_le a b = (a \<noteq> NaN \<and> b \<noteq> NaN \<and> \<not> f_lt b a)"

text \<open>\<^verbatim>\<open>min(a, b)\<close> returns \<open>a\<close> unless \<open>b\<close> is smaller.\<close>

definition f_min :: "py_num \<Rightarrow> py_num \<Rightarrow> py_num" where
  "f_min a b = (if f_lt b a then b else a)"

subsection \<open>Decimal\<close>

text \<open>A quiet NaN propagates through the arithmetic; an invalid combination of
  infinities raises \<^verbatim>\<open>InvalidOperation\<close>, as the default context traps it.\<close>

fun d_add :: "py_num \<Rightarrow> py_num \<Rightarrow> py_error + py_num" where
  "d_add NaN b = Inr NaN"
| "d_add a NaN = Inr NaN"
| "d_add (Finite x) (Finite y) = Inr (Finite (x + y))"
| "d_add PosInf NegInf = Inl InvalidOperation"
| "d_add NegInf PosInf = Inl InvalidOperation"
| "d_add PosInf b = Inr PosInf"
| "d_add NegInf b = Inr NegInf"
| "d_add (Finite x) b = Inr b"

definition d_sub :: "py_num \<Rightarrow> py_num \<Rightarrow> py_error + py_num" where
  "d_sub a b = d_add a (num_neg b)"

fun d_mul :: "py_num \<Rightarrow> py_num \<Rightarrow> py_error + py_num" where
  "d_mul NaN b = Inr NaN"
| "d_mul a NaN = Inr NaN"
| "d_mul (Finite x) (Finite y) = Inr (Finite (x * y))"
| "d_mul (Finite x) b = (if x = 0 then Inl InvalidOperation else Inr (inf_times b x))"
| "d_mul a (Finite y) = (if y = 0 then Inl InvalidOperation else Inr (inf_times a y))"
| "d_mul PosInf b = Inr b"
| "d_mul NegInf b = Inr (num_neg b)"

text \<open>\<^verbatim>\<open>a / c\<close> for a finite divisor: an infinite dividend gives an infinity; a zero
  divisor raises \<^verbatim>\<open>DivisionByZero\<close>, and \<^verbatim>\<open>0 / 0\<close> raises \<^verbatim>\<open>InvalidOperation\<close>.\<close>

fun d_div :: "py_num \<Rightarrow> rat \<Rightarrow> py_error + py_num" where
  "d_div NaN c = Inr NaN"
| "d_div (Finite x) c =
     (if c = 0 then (if x = 0 then Inl InvalidOperation else Inl DivisionByZero)
      else Inr (Finite (x / c)))"
| "d_div i c = Inr (if c < 0 then num_neg i else i)"

text \<open>The same for two finite numbers.\<close>

definition dec_div :: "rat \<Rightarrow> rat \<Rightarrow> py_error + rat" where
  "dec_div a b =
     (if b = 0 then (if a = 0 then Inl InvalidOperation else Inl DivisionByZero)
      else Inr (a / b))"

text \<open>An ordering comparison with a NaN raises \<^verbatim>\<open>InvalidOperation\<close>.\<close>

definition d_lt :: "py_num \<Rightarrow> py_num \<Rightarrow> py_error + bool" where
  "d_lt a b = (if a = NaN \<or> b = NaN then Inl InvalidOperation else Inr (f_lt a b))"

definition d_ge :: "py_num \<Rightarrow> py_num \<Rightarrow> py_error + bool" where
  "d_ge a b = (if a = NaN \<or> b = NaN then Inl InvalidOperation else Inr (\<not> f_lt a b))"

text \<open>\<^verbatim>\<open>max(a, b)\<close> returns \<open>a\<close> unless \<open>b\<close> is greater; the comparison is
  \<^verbatim>\<open>b > a\<close>.\<close>

definition d_max :: "py_num \<Rightarrow> py_num \<Rightarrow> py_error + py_num" where
  "d_max a b = (case d_lt a b of Inl e \<Rightarrow> Inl e | Inr lt \<Rightarrow> Inr (if lt then b else a))"

text \<open>\<^verbatim>\<open>float(d)\<close> of a \<^verbatim>\<open>Decimal\<close>.\<close>

fun to_float :: "py_num \<Rightarrow> py_num" where
  "to_float (Finite x) = fl x"
| "to_float a = a"

text \<open>\<^verbatim>\<open>base ** n\<close> for an integer exponent and a positive finite base (every base the
  code raises to a power is \<open>1 + rate\<close> with a rate that is a positive constant or is
  tested positive just before).\<close>

definition dec_pow :: "rat \<Rightarrow> int \<Rightarrow> rat" where
  "dec_pow b n = (if 0 \<le> n then b ^ nat n else 1 / b ^ nat (- n))"

section \<open>Settings (config.py)\<close>

definition ANNUAL_INFLATION_RATE :: rat where "ANNUAL_INFLATION_RATE = 3"
definition EXPECTED_ANNUAL_INVESTMENT_RETURN :: rat where "EXPECTED_ANNUAL_INVESTMENT_RETURN = 7"
definition RETIREMENT_LIFESTYLE_FACTOR :: rat where "RETIREMENT_LIFESTYLE_FACTOR = 7 / 10"
definition LIFE_EXPECTANCY :: int where "LIFE_EXPECTANCY = 90"
definition WITHDRAWAL_RATE :: rat where "WITHDRAWAL_RATE = 4 / 100"
definition RETIREMENT_INCOME_OAS :: rat where "RETIREMENT_INCOME_OAS = 8400"
definition RETIREMENT_INCOME_CPP :: rat where "RETIREMENT_INCOME_CPP = 15043"

section \<open>Compound growth primitives (retirement\_functions.py)\<close>

text \<open>The amounts and rates these two functions receive are \<^verbatim>\<open>Decimal\<close>s built from the
  profile's numbers and from the settings, hence finite; only the annual savings, which
  come out of the float tax function, can be an infinity or a NaN.\<close>

definition future_value :: "rat \<Rightarrow> rat \<Rightarrow> int \<Rightarrow> rat" where
  "future_value current_amount real_growth_rate years =
     (if years \<le> 0 then current_amount
      else current_amount * (1 + real_growth_rate) ^ nat years)"

text \<open>The body of \<^verbatim>\<open>for _ in range(years)\<close>, run \<open>n\<close> times on the accumulator.\<close>

fun future_savings_loop :: "nat \<Rightarrow> py_num \<Rightarrow> rat \<Rightarrow> py_num \<Rightarrow> py_error + py_num" where
  "future_savings_loop 0 annual_savings real_growth_rate projected = Inr projected"
| "future_savings_loop (Suc n) annual_savings real_growth_rate projected =
     (case d_mul projected (Finite (1 + real_growth_rate)) of
        Inl e \<Rightarrow> Inl e
      | Inr grown \<Rightarrow>
          (case d_add grown annual_savings of
             Inl e \<Rightarrow> Inl e
           | Inr projected' \<Rightarrow>
               future_savings_loop n annual_savings real_growth_rate projected'))"

definition calculate_future_savings ::
    "rat \<Rightarrow> py_num \<Rightarrow> rat \<Rightarrow> int \<Rightarrow> py_error + py_num" where
  "calculate_future_savings current_savings annual_savings real_growth_rate years =
     future_savings_loop (nat years) annual_savings real_growth_rate (Finite current_savings)"

section \<open>Tax model\<close>

text \<open>\<^verbatim>\<open>calculate_after_tax_income\<close> computes with floats. A bracket is
  \<open>(lower, upper, rate)\<close>; the upper bound of the last one is \<^verbatim>\<open>float('inf')\<close>.\<close>

type_synonym bracket = "py_num \<times> py_num \<times> py_num"

definition tax_brackets :: "bracket list" where
  "tax_brackets =
     [(Finite 0, Finite 55867, Finite (15 / 100)),
      (Finite 55867, Finite 111733, Finite (205 / 1000)),
      (Finite 111733, Finite 173205, Finite (26 / 100)),
      (Finite 173205, Finite 246752, Finite (29 / 100)),
      (Finite 246752, PosInf, Finite (33 / 100))]"

text \<open>The loop over the brackets, with its \<^verbatim>\<open>break\<close> at the first bracket whose lower
  bound the income does not exceed.\<close>

fun tax_loop :: "bracket list \<Rightarrow> py_num \<Rightarrow> py_num \<Rightarrow> py_num" where
  "tax_loop [] annual_income tax_payable = tax_payable"
| "tax_loop ((lower, upper, rate) # rest) annual_income tax_payable =
     (if f_gt annual_income lower
      then (let taxable_amount = f_min (f_sub annual_income lower) (f_sub upper lower)
            in tax_loop rest annual_income (f_add tax_payable (f_mul taxable_amount rate)))
      else tax_payable)"

definition calculate_after_tax_income :: "py_num \<Rightarrow> py_num" where
  "calculate_after_tax_income monthly_income =
     (let annual_income = f_mul monthly_income (Finite 12);
          tax_payable = tax_loop tax_brackets annual_income (Finite 0);
          after_tax_annual = f_sub annual_income tax_payable
      in f_div_literal after_tax_annual 12)"

section \<open>Retirement feasibility search\<close>

text \<open>The nested dictionary \<^verbatim>\<open>user_data\<close>, flattened. A missing
  \<^verbatim>\<open>desired_retirement_lifestyle\<close> key is \<open>None\<close>.\<close>

record user_data =
  ud_age :: int
  ud_monthly_income :: rat
  ud_monthly_expenses :: rat
  ud_monthly_savings :: rat
  ud_cash_holdings :: rat
  ud_investment_holdings :: rat
  ud_rrsp_savings :: rat
  ud_tfsa_savings :: rat
  ud_desired_retirement_lifestyle :: "string option"

text \<open>The fields the code fills with \<^verbatim>\<open>float(...)\<close> are floats.\<close>

record RetirementPlanResponse =
  plan_retirement_age :: int
  plan_current_age :: int
  plan_years_until_retirement :: int
  plan_years_in_retirement :: int
  plan_monthly_income :: py_num
  plan_monthly_expenses :: py_num
  plan_current_savings :: py_num
  plan_monthly_contribution :: py_num
  plan_projected_savings :: py_num
  plan_required_savings :: py_num
  plan_savings_gap :: py_num
  plan_retirement_income :: py_num
  plan_retirement_expenses :: py_num
  plan_government_benefits :: py_num
  plan_savings_income :: py_num

definition plan_inflation_rate :: rat where
  "plan_inflation_rate = ANNUAL_INFLATION_RATE / 100"

definition plan_expected_return :: rat where
  "plan_expected_return = EXPECTED_ANNUAL_INVESTMENT_RETURN / 100"

definition lifestyle_map :: "string \<Rightarrow> rat option" where
  "lifestyle_map k =
     (if k = ''frugal'' then Some (6 / 10)
      else if k = ''moderate'' then Some (7 / 10)
      else if k = ''comfortable'' then Some (8 / 10)
      else if k = ''lavish'' then Some (9 / 10)
      else None)"

definition lifestyle_factor :: "user_data \<Rightarrow> rat" where
  "lifestyle_factor u =
     (let desired_lifestyle =
            (case ud_desired_retirement_lifestyle u of None \<Rightarrow> ''moderate'' | Some l \<Rightarrow> l)
      in case lifestyle_map desired_lifestyle of
           None \<Rightarrow> RETIREMENT_LIFESTYLE_FACTOR
         | Some f \<Rightarrow> f)"

text \<open>\<^verbatim>\<open>Decimal(str(calculate_after_tax_income(float(monthly_savings))))\<close>: the
  conversion to a float can overflow; the conversion back keeps the float's value.\<close>

definition after_tax_monthly_savings :: "user_data \<Rightarrow> py_num" where
  "after_tax_monthly_savings u = calculate_after_tax_income (fl (ud_monthly_savings u))"

definition annual_savings :: "user_data \<Rightarrow> py_error + py_num" where
  "annual_savings u = d_mul (after_tax_monthly_savings u) (Finite 12)"

definition current_investments :: "user_data \<Rightarrow> rat" where
  "current_investments u =
     ud_rrsp_savings u + ud_tfsa_savings u + ud_investment_holdings u"

text \<open>The quantities one pass of the search loop computes for a candidate that is
  \<open>years\<close> years away (lines 249 to 268 of the source).\<close>

definition total_projected_assets :: "user_data \<Rightarrow> int \<Rightarrow> py_error + py_num" where
  "total_projected_assets u years =
     (let projected_cash = future_value (ud_cash_holdings u) plan_inflation_rate years
      in case annual_savings u of
           Inl e \<Rightarrow> Inl e
         | Inr annual \<Rightarrow>
             (case calculate_future_savings (current_investments u) annual
                     plan_expected_return years of
                Inl e \<Rightarrow> Inl e
              | Inr projected_investments \<Rightarrow>
                  d_add (Finite projected_cash) projected_investments))"

definition total_government_benefits :: "int \<Rightarrow> rat" where
  "total_government_benefits years =
     (let future_cpp_income = future_value RETIREMENT_INCOME_CPP plan_inflation_rate years;
          future_oas_income = future_value RETIREMENT_INCOME_OAS plan_inflation_rate years
      in future_cpp_income + future_oas_income)"

definition required_savings :: "user_data \<Rightarrow> int \<Rightarrow> rat" where
  "required_savings u years =
     (let annual_expenses_future =
            (ud_monthly_expenses u * 12) * dec_pow (1 + plan_inflation_rate) years;
          annual_retirement_income_needed = annual_expenses_future * lifestyle_factor u
      in annual_retirement_income_needed / WITHDRAWAL_RATE)"

text \<open>The test of line 270 for a candidate \<open>years\<close> years away.\<close>

definition feasibility_test :: "user_data \<Rightarrow> int \<Rightarrow> py_error + bool" where
  "feasibility_test u years =
     (case total_projected_assets u years of
        Inl e \<Rightarrow> Inl e
      | Inr total_assets \<Rightarrow> d_ge total_assets (Finite (required_savings u years)))"

text \<open>The local variables of \<^verbatim>\<open>calculate_current_retirement_plan\<close> that the loop
  writes. \<^verbatim>\<open>years_until_retirement\<close> and \<^verbatim>\<open>total_government_benefits\<close> are bound only
  inside the loop body: \<open>None\<close> is "not yet bound".\<close>

record plan_state =
  st_retirement_age :: int
  st_found_retirement_age :: bool
  st_feasible_projected_savings :: py_num
  st_feasible_required_savings :: rat
  st_years_until_retirement :: "int option"
  st_total_government_benefits :: "rat option"

function plan_loop :: "user_data \<Rightarrow> plan_state \<Rightarrow> py_error + plan_state" where
  "plan_loop u st =
     (if st_retirement_age st \<le> 90 then
        (let years = st_retirement_age st - ud_age u;
             st1 = st\<lparr>st_years_until_retirement := Some years\<rparr>
         in if years < 0 then Inr st1
            else
              (case total_projected_assets u years of
                 Inl e \<Rightarrow> Inl e
               | Inr total_assets \<Rightarrow>
                   (let st2 = st1\<lparr>st_total_government_benefits :=
                                    Some (total_government_benefits years)\<rparr>
                    in case d_ge total_assets (Finite (required_savings u years)) of
                         Inl e \<Rightarrow> Inl e
                       | Inr feasible_now \<Rightarrow>
                           if feasible_now
                           then Inr (st2\<lparr>st_found_retirement_age := True,
                                        st_feasible_projected_savings := total_assets,
                                        st_feasible_required_savings :=
                                          required_savings u years\<rparr>)
                           else plan_loop u
                                  (st2\<lparr>st_retirement_age := st_retirement_age st + 1\<rparr>))))
      else Inr st)"
  by pat_completeness auto
termination
  by (relation "measure (\<lambda>(u, st). nat (91 - st_retirement_age st))") auto

declare plan_loop.simps [simp del]

definition plan_init :: "user_data \<Rightarrow> plan_state" where
  "plan_init u =
     \<lparr>st_retirement_age = ud_age u,
      st_found_retirement_age = False,
      st_feasible_projected_savings = Finite (ud_cash_holdings u + current_investments u),
      st_feasible_required_savings = 0,
      st_years_until_retirement = None,
      st_total_government_benefits = None\<rparr>"

text \<open>After the loop: the clamp to 90 when nothing was found, then the response. Reading
  a local that no pass of the loop has bound raises \<^verbatim>\<open>UnboundLocalError\<close>.\<close>

definition plan_clamp :: "user_data \<Rightarrow> plan_state \<Rightarrow> plan_state" where
  "plan_clamp u st =
     (if \<not> st_found_retirement_age st
      then st\<lparr>st_retirement_age := 90, st_years_until_retirement := Some (90 - ud_age u)\<rparr>
      else st)"

text \<open>\<^verbatim>\<open>float(max(Decimal('0'), feasible_required_savings - feasible_projected_savings))\<close>.\<close>

definition savings_gap_of :: "plan_state \<Rightarrow> py_error + py_num" where
  "savings_gap_of st =
     (case d_sub (Finite (st_feasible_required_savings st))
             (st_feasible_projected_savings st) of
        Inl e \<Rightarrow> Inl e
      | Inr shortfall \<Rightarrow>
          (case d_max (Finite 0) shortfall of
             Inl e \<Rightarrow> Inl e
           | Inr gap \<Rightarrow> Inr (to_float gap)))"

text \<open>Lines 284 to 289.\<close>

definition retirement_incomes :: "plan_state \<Rightarrow> rat \<Rightarrow> py_error + py_num \<times> py_num" where
  "retirement_incomes st annual_government_income =
     (case d_mul (st_feasible_projected_savings st) (Finite WITHDRAWAL_RATE) of
        Inl e \<Rightarrow> Inl e
      | Inr annual_savings_income \<Rightarrow>
          (case d_add (Finite annual_government_income) annual_savings_income of
             Inl e \<Rightarrow> Inl e
           | Inr total_annual_retirement_income \<Rightarrow>
               (case d_div total_annual_retirement_income 12 of
                  Inl e \<Rightarrow> Inl e
                | Inr monthly_retirement_income \<Rightarrow>
                    (case d_div annual_savings_income 12 of
                       Inl e \<Rightarrow> Inl e
                     | Inr monthly_savings_income \<Rightarrow>
                         Inr (monthly_retirement_income, monthly_savings_income)))))"

definition plan_response :: "user_data \<Rightarrow> plan_state \<Rightarrow> py_error + RetirementPlanResponse" where
  "plan_response u st =
     (let years_in_retirement = max 0 (LIFE_EXPECTANCY - st_retirement_age st)
      in case st_total_government_benefits st of
           None \<Rightarrow> Inl UnboundLocalError
         | Some annual_government_income \<Rightarrow>
             (case retirement_incomes st annual_government_income of
                Inl e \<Rightarrow> Inl e
              | Inr (monthly_retirement_income, monthly_savings_income) \<Rightarrow>
                  (let monthly_government_income = annual_government_income / 12
                   in case st_years_until_retirement st of
                        None \<Rightarrow> Inl UnboundLocalError
                      | Some years_until_retirement \<Rightarrow>
                          (case savings_gap_of st of
                             Inl e \<Rightarrow> Inl e
                           | Inr savings_gap \<Rightarrow>
                               Inr \<lparr>plan_retirement_age = st_retirement_age st,
                                    plan_current_age = ud_age u,
                                    plan_years_until_retirement = years_until_retirement,
                                    plan_years_in_retirement = years_in_retirement,
                                    plan_monthly_income = fl (ud_monthly_income u),
                                    plan_monthly_expenses = fl (ud_monthly_expenses u),
                                    plan_current_savings =
                                      fl (ud_cash_holdings u + current_investments u),
                                    plan_monthly_contribution =
                                      to_float (after_tax_monthly_savings u),
                                    plan_projected_savings =
                                      to_float (st_feasible_projected_savings st),
                                    plan_required_savings =
                                      fl (st_feasible_required_savings st),
                                    plan_savings_gap = savings_gap,
                                    plan_retirement_income =
                                      to_float monthly_retirement_income,
                                    plan_retirement_expenses =
                                      fl (ud_monthly_expenses u
                                          * dec_pow (1 + plan_inflation_rate)
                                              years_until_retirement),
                                    plan_government_benefits = fl monthly_government_income,
                                    plan_savings_income =
                                      to_float monthly_savings_income\<rparr>))))"

text \<open>Lines 218 and 219 run before the loop.\<close>

definition calculate_current_retirement_plan ::
    "user_data \<Rightarrow> py_error + RetirementPlanResponse" where
  "calculate_current_retirement_plan u =
     (case annual_savings u of
        Inl e \<Rightarrow> Inl e
      | Inr annual \<Rightarrow>
          (case plan_loop u (plan_init u) of
             Inl e \<Rightarrow> Inl e
           | Inr st \<Rightarrow> plan_response u (plan_clamp u st)))"

text \<open>A candidate age is feasible when the test of line 270 holds for it: the assets
  projected for it cover the savings required at it.\<close>

definition feasible :: "user_data \<Rightarrow> int \<Rightarrow> bool" where
  "feasible u a \<longleftrightarrow> feasibility_test u (a - ud_age u) = Inr True"

section \<open>What-if solver (retirement\_functions.py)\<close>

record RetirementWhatIfRequest =
  sc_current_age :: int
  sc_retirement_age :: int
  sc_life_expectancy :: int
  sc_current_savings :: rat
  sc_monthly_contribution :: rat
  sc_expected_return_rate :: rat
  sc_inflation_rate :: rat
  sc_desired_retirement_income :: rat
  sc_include_cpp_oas :: bool

text \<open>The scenario's numbers are finite, and so is every \<^verbatim>\<open>Decimal\<close> the solver
  computes from them; the response holds their \<^verbatim>\<open>float(...)\<close>. An entry of
  \<^verbatim>\<open>savings_by_year\<close> is the pair of its \<^verbatim>\<open>"year"\<close> and its \<^verbatim>\<open>"amount"\<close>; the two
  keys of \<^verbatim>\<open>monthly_income_breakdown\<close> are the last two fields.\<close>

record RetirementWhatIfResponse =
  wi_retirement_age :: int
  wi_total_savings_at_retirement :: py_num
  wi_monthly_retirement_income :: py_num
  wi_savings_gap :: py_num
  wi_monthly_contribution_needed :: py_num
  wi_years_until_retirement :: int
  wi_retirement_duration :: int
  wi_savings_by_year :: "(int \<times> py_num) list"
  wi_savings_income :: py_num
  wi_government_benefits :: py_num

text \<open>\<^verbatim>\<open>raw / Decimal('100') if raw > Decimal('1') else raw\<close> (lines 397 and 398).\<close>

definition auto_detect_percentage :: "rat \<Rightarrow> rat" where
  "auto_detect_percentage raw = (if raw > 1 then raw / 100 else raw)"

text \<open>\<^verbatim>\<open>for year in range(years_until_retirement)\<close>: each pass records the savings at
  the start of the year, then grows them.\<close>

fun what_if_growth_loop ::
    "int list \<Rightarrow> rat \<Rightarrow> rat \<Rightarrow> rat \<Rightarrow> (int \<times> py_num) list
       \<Rightarrow> rat \<times> (int \<times> py_num) list" where
  "what_if_growth_loop [] real_return_rate annual_contribution projected_savings savings_by_year =
     (projected_savings, savings_by_year)"
| "what_if_growth_loop (year # rest) real_return_rate annual_contribution projected_savings
       savings_by_year =
     (let savings_by_year' = savings_by_year @ [(2023 + year, fl projected_savings)];
          interest = projected_savings * real_return_rate;
          projected_savings' = projected_savings + interest + annual_contribution
      in what_if_growth_loop rest real_return_rate annual_contribution projected_savings'
           savings_by_year')"

text \<open>The additional monthly contribution (lines 486 to 503).\<close>

definition additional_contribution :: "rat \<Rightarrow> rat \<Rightarrow> int \<Rightarrow> py_error + rat" where
  "additional_contribution savings_gap real_return_rate years_until_retirement =
     (let withdrawal_rate = 4 / 100 in
      if savings_gap > 0 then
        (if real_return_rate > 0 then
           (case dec_div (dec_pow (1 + real_return_rate) years_until_retirement - 1)
                   real_return_rate of
              Inl e \<Rightarrow> Inl e
            | Inr factor \<Rightarrow>
                (let additional_savings_needed = savings_gap * 12 / withdrawal_rate
                 in dec_div additional_savings_needed (12 * factor)))
         else
           (let additional_savings_needed = savings_gap * 12 / withdrawal_rate
            in dec_div additional_savings_needed (12 * of_int years_until_retirement)))
      else Inr 0)"

text \<open>The body of the \<^verbatim>\<open>try\<close> block.\<close>

definition what_if_body :: "RetirementWhatIfRequest \<Rightarrow> py_error + RetirementWhatIfResponse" where
  "what_if_body scenario =
     (let expected_return_rate = auto_detect_percentage (sc_expected_return_rate scenario);
          inflation_rate = auto_detect_percentage (sc_inflation_rate scenario);
          years_until_retirement = sc_retirement_age scenario - sc_current_age scenario;
          retirement_duration = sc_life_expectancy scenario - sc_retirement_age scenario;
          current_savings = sc_current_savings scenario;
          monthly_contribution = sc_monthly_contribution scenario;
          annual_contribution = monthly_contribution * 12
      in case dec_div (1 + expected_return_rate) (1 + inflation_rate) of
           Inl e \<Rightarrow> Inl e
         | Inr q \<Rightarrow>
             (let real_return_rate = q - 1;
                  grown = what_if_growth_loop [0..years_until_retirement - 1] real_return_rate
                            annual_contribution current_savings [];
                  projected_savings = fst grown;
                  savings_by_year =
                    snd grown @ [(2023 + years_until_retirement, fl projected_savings)];
                  withdrawal_rate = 4 / 100;
                  savings_monthly_income = (projected_savings * withdrawal_rate) / 12;
                  govt_monthly_income =
                    (if sc_include_cpp_oas scenario then 1200 + 615 else 0);
                  total_monthly_income = savings_monthly_income + govt_monthly_income;
                  desired_monthly_income = sc_desired_retirement_income scenario / 12;
                  savings_gap = desired_monthly_income - total_monthly_income
              in case additional_contribution savings_gap real_return_rate
                        years_until_retirement of
                   Inl e \<Rightarrow> Inl e
                 | Inr monthly_contribution_needed \<Rightarrow>
                     (let total_monthly_needed =
                            monthly_contribution + monthly_contribution_needed
                      in Inr \<lparr>wi_retirement_age = sc_retirement_age scenario,
                              wi_total_savings_at_retirement = fl projected_savings,
                              wi_monthly_retirement_income = fl total_monthly_income,
                              wi_savings_gap = fl savings_gap,
                              wi_monthly_contribution_needed = fl total_monthly_needed,
                              wi_years_until_retirement = years_until_retirement,
                              wi_retirement_duration = retirement_duration,
                              wi_savings_by_year = savings_by_year,
                              wi_savings_income = fl savings_monthly_income,
                              wi_government_benefits = fl govt_monthly_income\<rparr>)))"

text \<open>\<^verbatim>\<open>except Exception\<close>: whatever the body raises becomes an
  \<^verbatim>\<open>HTTPException\<close> with status 400.\<close>

definition calculate_retirement_what_if ::
    "RetirementWhatIfRequest \<Rightarrow> py_error + RetirementWhatIfResponse" where
  "calculate_retirement_what_if scenario =
     (case what_if_body scenario of
        Inl e \<Rightarrow> Inl (HTTPException 400)
      | Inr result \<Rightarrow> Inr result)"

section \<open>What-if solver (utils\_calculation\_functions.py)\<close>

text \<open>The second function of the same name, in the calculation helpers module. It reads
  the same attributes of the scenario and returns a dictionary with the keys of the
  response above.\<close>

fun utils_growth_loop ::
    "int list \<Rightarrow> int \<Rightarrow> rat \<Rightarrow> rat \<Rightarrow> rat \<Rightarrow> (int \<times> py_num) list
       \<Rightarrow> rat \<times> (int \<times> py_num) list" where
  "utils_growth_loop [] current_age monthly_contribution expected_return_rate projected_savings
       savings_by_year =
     (projected_savings, savings_by_year)"
| "utils_growth_loop (year # rest) current_age monthly_contribution expected_return_rate
       projected_savings savings_by_year =
     (let savings_by_year' = savings_by_year @ [(current_age + year, fl projected_savings)];
          annual_contribution = monthly_contribution * 12;
          projected_savings' = projected_savings * (1 + expected_return_rate) + annual_contribution
      in utils_growth_loop rest current_age monthly_contribution expected_return_rate
           projected_savings' savings_by_year')"

definition utils_contribution_needed :: "rat \<Rightarrow> rat \<Rightarrow> int \<Rightarrow> py_error + rat" where
  "utils_contribution_needed additional_savings_needed expected_return_rate
       years_until_retirement =
     (if years_until_retirement > 0 then
        (if expected_return_rate > 0 then
           (case dec_div additional_savings_needed
                   (dec_pow (1 + expected_return_rate) years_until_retirement - 1) of
              Inl e \<Rightarrow> Inl e
            | Inr d \<Rightarrow> Inr ((d * expected_return_rate) / 12))
         else dec_div additional_savings_needed (of_int (years_until_retirement * 12)))
      else Inr 0)"

definition utils_calculate_retirement_what_if ::
    "RetirementWhatIfRequest \<Rightarrow> py_error + RetirementWhatIfResponse" where
  "utils_calculate_retirement_what_if scenario =
     (let years_until_retirement = sc_retirement_age scenario - sc_current_age scenario;
          retirement_duration = sc_life_expectancy scenario - sc_retirement_age scenario;
          current_savings = sc_current_savings scenario;
          monthly_contribution = sc_monthly_contribution scenario;
          expected_return_rate = sc_expected_return_rate scenario;
          inflation_rate = sc_inflation_rate scenario;
          grown = utils_growth_loop [0..years_until_retirement] (sc_current_age scenario)
                    monthly_contribution expected_return_rate current_savings [];
          total_savings_at_retirement = fst grown;
          savings_by_year = snd grown;
          cpp_oas_monthly = 0;
          safe_withdrawal_rate = 4 / 100 - inflation_rate;
          monthly_savings_income = (total_savings_at_retirement * safe_withdrawal_rate) / 12;
          total_monthly_income = monthly_savings_income + cpp_oas_monthly;
          monthly_income_gap = sc_desired_retirement_income scenario - total_monthly_income
      in case dec_div (monthly_income_gap * 12) safe_withdrawal_rate of
           Inl e \<Rightarrow> Inl e
         | Inr additional_savings_needed \<Rightarrow>
             (case utils_contribution_needed additional_savings_needed expected_return_rate
                     years_until_retirement of
                Inl e \<Rightarrow> Inl e
              | Inr monthly_contribution_needed \<Rightarrow>
                  Inr \<lparr>wi_retirement_age = sc_retirement_age scenario,
                       wi_total_savings_at_retirement = fl total_savings_at_retirement,
                       wi_monthly_retirement_income = fl total_monthly_income,
                       wi_savings_gap = fl additional_savings_needed,
                       wi_monthly_contribution_needed =
                         fl (monthly_contribution + monthly_contribution_needed),
                       wi_years_until_retirement = years_until_retirement,
                       wi_retirement_duration = retirement_duration,
                       wi_savings_by_year = savings_by_year,
                       wi_savings_income = fl monthly_savings_income,
                       wi_government_benefits = fl cpp_oas_monthly\<rparr>))"


section \<open>Example inputs\<close>

text \<open>The profile of the specification's end-to-end example.\<close>

definition example_profile :: user_data where
  "example_profile =
     \<lparr>ud_age = 30, ud_monthly_income = 6000, ud_monthly_expenses = 4000,
      ud_monthly_savings = 2000, ud_cash_holdings = 10000, ud_investment_holdings = 20000,
      ud_rrsp_savings = 5000, ud_tfsa_savings = 5000,
      ud_desired_retirement_lifestyle = Some ''moderate''\<rparr>"

text \<open>A profile twenty years from the first one, with larger investments.\<close>

definition near_profile :: user_data where
  "near_profile =
     \<lparr>ud_age = 60, ud_monthly_income = 6000, ud_monthly_expenses = 4000,
      ud_monthly_savings = 2000, ud_cash_holdings = 10000, ud_investment_holdings = 700000,
      ud_rrsp_savings = 5000, ud_tfsa_savings = 5000,
      ud_desired_retirement_lifestyle = Some ''moderate''\<rparr>"

text \<open>The same holdings and expenses at age 88, with nothing saved each month.\<close>

definition late_profile :: user_data where
  "late_profile =
     \<lparr>ud_age = 88, ud_monthly_income = 4000, ud_monthly_expenses = 4000,
      ud_monthly_savings = 0, ud_cash_holdings = 10000, ud_investment_holdings = 20000,
      ud_rrsp_savings = 5000, ud_tfsa_savings = 5000,
      ud_desired_retirement_lifestyle = Some ''moderate''\<rparr>"

text \<open>The same profile one year past the age ceiling.\<close>

definition overage_profile :: user_data where
  "overage_profile =
     \<lparr>ud_age = 91, ud_monthly_income = 4000, ud_monthly_expenses = 4000,
      ud_monthly_savings = 0, ud_cash_holdings = 10000, ud_investment_holdings = 20000,
      ud_rrsp_savings = 5000, ud_tfsa_savings = 5000,
      ud_desired_retirement_lifestyle = Some ''moderate''\<rparr>"

text \<open>The scenario of the specification's what-if example.\<close>

definition example_scenario :: RetirementWhatIfRequest where
  "example_scenario =
     \<lparr>sc_current_age = 40, sc_retirement_age = 65, sc_life_expectancy = 90,
      sc_current_savings = 100000, sc_monthly_contribution = 500,
      sc_expected_return_rate = 6 / 100, sc_inflation_rate = 2 / 100,
      sc_desired_retirement_income = 60000, sc_include_cpp_oas = False\<rparr>"

text \<open>The same scenario for someone who retires this year.\<close>

definition zero_years_scenario :: RetirementWhatIfRequest where
  "zero_years_scenario =
     \<lparr>sc_current_age = 65, sc_retirement_age = 65, sc_life_expectancy = 90,
      sc_current_savings = 100000, sc_monthly_contribution = 500,
      sc_expected_return_rate = 6 / 100, sc_inflation_rate = 2 / 100,
      sc_desired_retirement_income = 60000, sc_include_cpp_oas = False\<rparr>"


section \<open>Properties of the tax model\<close>

lemma FLOAT_OVERFLOW_eq: "FLOAT_OVERFLOW = 2 ^ 1024 - 2 ^ 970"
  by (simp add: FLOAT_OVERFLOW_def)

lemma FLOAT_OVERFLOW_big: "10000000 < FLOAT_OVERFLOW"
  by (simp add: FLOAT_OVERFLOW_def)

lemma fl_Finite: "- FLOAT_OVERFLOW < x \<Longrightarrow> x < FLOAT_OVERFLOW \<Longrightarrow> fl x = Finite x"
  by (simp add: fl_def)

lemma fl_small: "- 10000000 < x \<Longrightarrow> x < 10000000 \<Longrightarrow> fl x = Finite x"
  using FLOAT_OVERFLOW_big by (simp add: fl_def)

lemma fl_PosInf: "FLOAT_OVERFLOW \<le> x \<Longrightarrow> fl x = PosInf"
  by (simp add: fl_def)

lemma fl_NegInf: "x \<le> - FLOAT_OVERFLOW \<Longrightarrow> fl x = NegInf"
  using FLOAT_OVERFLOW_big by (simp add: fl_def)

text \<open>The net annual income while nothing overflows.\<close>

lemma tax_loop_finite:
  assumes "- FLOAT_OVERFLOW < a" "a < FLOAT_OVERFLOW"
  shows "f_sub (Finite a) (tax_loop tax_brackets (Finite a) (Finite 0)) =
     Finite
      (if a \<le> 0 then a
       else if a \<le> 55867 then a - a * (15 / 100)
       else if a \<le> 111733 then a - (55867 * (15 / 100) + (a - 55867) * (205 / 1000))
       else if a \<le> 173205
         then a - (55867 * (15 / 100) + 55866 * (205 / 1000) + (a - 111733) * (26 / 100))
       else if a \<le> 246752
         then a - (55867 * (15 / 100) + 55866 * (205 / 1000) + 61472 * (26 / 100)
                   + (a - 173205) * (29 / 100))
       else a - (55867 * (15 / 100) + 55866 * (205 / 1000) + 61472 * (26 / 100)
                 + 73547 * (29 / 100) + (a - 246752) * (33 / 100)))"
proof -
  note B = FLOAT_OVERFLOW_big
  consider (r0) "a \<le> 0" | (r1) "0 < a" "a \<le> 55867" | (r2) "55867 < a" "a \<le> 111733"
    | (r3) "111733 < a" "a \<le> 173205" | (r4) "173205 < a" "a \<le> 246752" | (r5) "246752 < a"
    by linarith
  then show ?thesis
  proof cases
    case r0
    then show ?thesis using assms B
      by (simp add: tax_brackets_def f_gt_def f_sub_def fl_def)
  next
    case r1
    then show ?thesis using assms B
      by (simp add: tax_brackets_def f_gt_def f_sub_def f_min_def fl_def Let_def,
          (simp add: field_simps)?)
  next
    case r2
    then show ?thesis using assms B
      by (simp add: tax_brackets_def f_gt_def f_sub_def f_min_def fl_def Let_def,
          (simp add: field_simps)?)
  next
    case r3
    then show ?thesis using assms B
      by (simp add: tax_brackets_def f_gt_def f_sub_def f_min_def fl_def Let_def,
          (simp add: field_simps)?)
  next
    case r4
    then show ?thesis using assms B
      by (simp add: tax_brackets_def f_gt_def f_sub_def f_min_def fl_def Let_def,
          (simp add: field_simps)?)
  next
    case r5
    then show ?thesis using assms B
      by (simp add: tax_brackets_def f_gt_def f_sub_def f_min_def fl_def Let_def,
          (simp add: field_simps)?)
  qed
qed


lemma net_closed_mono:
  fixes a b :: rat
  assumes "a \<le> b"
  shows "(if a \<le> 0 then a
       else if a \<le> 55867 then a - a * (15 / 100)
       else if a \<le> 111733 then a - (55867 * (15 / 100) + (a - 55867) * (205 / 1000))
       else if a \<le> 173205
         then a - (55867 * (15 / 100) + 55866 * (205 / 1000) + (a - 111733) * (26 / 100))
       else if a \<le> 246752
         then a - (55867 * (15 / 100) + 55866 * (205 / 1000) + 61472 * (26 / 100)
                   + (a - 173205) * (29 / 100))
       else a - (55867 * (15 / 100) + 55866 * (205 / 1000) + 61472 * (26 / 100)
                 + 73547 * (29 / 100) + (a - 246752) * (33 / 100)))
     \<le> (if b \<le> 0 then b
       else if b \<le> 55867 then b - b * (15 / 100)
       else if b \<le> 111733 then b - (55867 * (15 / 100) + (b - 55867) * (205 / 1000))
       else if b \<le> 173205
         then b - (55867 * (15 / 100) + 55866 * (205 / 1000) + (b - 111733) * (26 / 100))
       else if b \<le> 246752
         then b - (55867 * (15 / 100) + 55866 * (205 / 1000) + 61472 * (26 / 100)
                   + (b - 173205) * (29 / 100))
       else b - (55867 * (15 / 100) + 55866 * (205 / 1000) + 61472 * (26 / 100)
                 + 73547 * (29 / 100) + (b - 246752) * (33 / 100)))"
  using assms
  apply (simp split: if_splits)
  apply (intro conjI impI)
  apply (simp_all add: field_simps)
  done

lemma net_closed_bounds:
  fixes a :: rat
  shows "\<bar>if a \<le> 0 then a
       else if a \<le> 55867 then a - a * (15 / 100)
       else if a \<le> 111733 then a - (55867 * (15 / 100) + (a - 55867) * (205 / 1000))
       else if a \<le> 173205
         then a - (55867 * (15 / 100) + 55866 * (205 / 1000) + (a - 111733) * (26 / 100))
       else if a \<le> 246752
         then a - (55867 * (15 / 100) + 55866 * (205 / 1000) + 61472 * (26 / 100)
                   + (a - 173205) * (29 / 100))
       else a - (55867 * (15 / 100) + 55866 * (205 / 1000) + 61472 * (26 / 100)
                 + 73547 * (29 / 100) + (a - 246752) * (33 / 100))\<bar> \<le> \<bar>a\<bar>"
  by (simp add: abs_if field_simps split: if_splits)

lemma after_tax_in_range:
  assumes "- FLOAT_OVERFLOW < 12 * x" "12 * x < FLOAT_OVERFLOW"
  shows "\<exists>n. f_sub (Finite (12 * x)) (tax_loop tax_brackets (Finite (12 * x)) (Finite 0)) = Finite n
           \<and> calculate_after_tax_income (fl x) = Finite (n / 12)
           \<and> \<bar>n\<bar> \<le> \<bar>12 * x\<bar>"
proof -
  have x: "- FLOAT_OVERFLOW < x" "x < FLOAT_OVERFLOW"
    using assms FLOAT_OVERFLOW_big by linarith+
  obtain n where n: "f_sub (Finite (12 * x)) (tax_loop tax_brackets (Finite (12 * x)) (Finite 0))
       = Finite n" and b: "\<bar>n\<bar> \<le> \<bar>12 * x\<bar>"
    using tax_loop_finite [OF assms] net_closed_bounds [of "12 * x"] by simp
  have nb: "- FLOAT_OVERFLOW < n / 12" "n / 12 < FLOAT_OVERFLOW"
    using b assms FLOAT_OVERFLOW_big by (simp_all add: abs_if split: if_splits)
  have "calculate_after_tax_income (fl x) = Finite (n / 12)"
    unfolding calculate_after_tax_income_def Let_def fl_Finite [OF x]
    using n assms nb by (simp add: fl_Finite mult.commute)
  with n b show ?thesis by blast
qed

lemma after_tax_mono_in_range:
  assumes "- FLOAT_OVERFLOW < 12 * x" "x \<le> y" "12 * y < FLOAT_OVERFLOW"
  shows "\<exists>a b. calculate_after_tax_income (fl x) = Finite a
             \<and> calculate_after_tax_income (fl y) = Finite b \<and> a \<le> b"
proof -
  have rx: "12 * x < FLOAT_OVERFLOW" and ry: "- FLOAT_OVERFLOW < 12 * y"
    using assms by linarith+
  have le: "12 * x \<le> 12 * y" using assms(2) by simp
  obtain n where n: "f_sub (Finite (12 * x)) (tax_loop tax_brackets (Finite (12 * x)) (Finite 0))
       = Finite n" "calculate_after_tax_income (fl x) = Finite (n / 12)"
    using after_tax_in_range [OF assms(1) rx] by blast
  obtain m where m: "f_sub (Finite (12 * y)) (tax_loop tax_brackets (Finite (12 * y)) (Finite 0))
       = Finite m" "calculate_after_tax_income (fl y) = Finite (m / 12)"
    using after_tax_in_range [OF ry assms(3)] by blast
  have "n \<le> m"
    using n(1) m(1) net_closed_mono [OF le]
    unfolding tax_loop_finite [OF assms(1) rx] tax_loop_finite [OF ry assms(3)]
    by simp
  then have "n / 12 \<le> m / 12" by (simp add: divide_right_mono)
  with n(2) m(2) show ?thesis by blast
qed

lemma after_tax_overflow:
  assumes "FLOAT_OVERFLOW \<le> 12 * x"
  shows "calculate_after_tax_income (fl x) = NaN"
proof -
  have "f_mul (fl x) (Finite 12) = PosInf"
    using assms FLOAT_OVERFLOW_big by (auto simp: fl_def inf_times_def mult.commute)
  then show ?thesis
    by (simp add: calculate_after_tax_income_def Let_def tax_brackets_def f_gt_def f_sub_def
        f_min_def inf_times_def fl_small)
qed

lemma after_tax_negative_overflow:
  assumes "12 * x \<le> - FLOAT_OVERFLOW"
  shows "calculate_after_tax_income (fl x) = NegInf"
proof -
  have "f_mul (fl x) (Finite 12) = NegInf"
    using assms FLOAT_OVERFLOW_big by (auto simp: fl_def inf_times_def mult.commute)
  then show ?thesis
    by (simp add: calculate_after_tax_income_def Let_def tax_brackets_def f_gt_def f_sub_def
        f_min_def inf_times_def fl_small)
qed

lemmas settings_defs =
  ANNUAL_INFLATION_RATE_def EXPECTED_ANNUAL_INVESTMENT_RETURN_def
  RETIREMENT_LIFESTYLE_FACTOR_def LIFE_EXPECTANCY_def WITHDRAWAL_RATE_def
  RETIREMENT_INCOME_OAS_def RETIREMENT_INCOME_CPP_def

section \<open>Properties of the growth loop\<close>

lemma future_savings_loop_finite:
  "\<exists>v. future_savings_loop n (Finite a) r (Finite p) = Inr (Finite v)"
  by (induction n arbitrary: p) simp_all

lemma future_savings_loop_mono:
  assumes "0 \<le> 1 + r" "a1 \<le> a2" "p1 \<le> p2"
    "future_savings_loop n (Finite a1) r (Finite p1) = Inr (Finite v1)"
    "future_savings_loop n (Finite a2) r (Finite p2) = Inr (Finite v2)"
  shows "v1 \<le> v2"
  using assms
proof (induction n arbitrary: p1 p2)
  case 0
  then show ?case by simp
next
  case (Suc n)
  have "p1 * (1 + r) \<le> p2 * (1 + r)"
    using Suc.prems by (intro mult_right_mono) simp_all
  then have "p1 * (1 + r) + a1 \<le> p2 * (1 + r) + a2"
    using Suc.prems by simp
  with Suc show ?case by simp
qed

lemma future_savings_loop_NaN:
  "future_savings_loop n NaN r NaN = Inr NaN"
  by (induction n) simp_all

lemma future_savings_loop_NaN_Finite:
  "0 < n \<Longrightarrow> future_savings_loop n NaN r (Finite p) = Inr NaN"
  by (cases n) (simp_all add: future_savings_loop_NaN)

lemma future_savings_loop_NegInf:
  "0 < 1 + r \<Longrightarrow> future_savings_loop n NegInf r NegInf = Inr NegInf"
  by (induction n) (simp_all add: inf_times_def)

lemma future_savings_loop_NegInf_Finite:
  "0 < 1 + r \<Longrightarrow> 0 < n \<Longrightarrow> future_savings_loop n NegInf r (Finite p) = Inr NegInf"
  by (cases n) (simp_all add: future_savings_loop_NegInf)

section \<open>Properties of the feasibility test\<close>

lemma annual_savings_overflow:
  "FLOAT_OVERFLOW \<le> 12 * ud_monthly_savings u \<Longrightarrow> annual_savings u = Inr NaN"
  by (simp add: annual_savings_def after_tax_monthly_savings_def after_tax_overflow)

lemma annual_savings_negative_overflow:
  "12 * ud_monthly_savings u \<le> - FLOAT_OVERFLOW \<Longrightarrow> annual_savings u = Inr NegInf"
  by (simp add: annual_savings_def after_tax_monthly_savings_def after_tax_negative_overflow
      inf_times_def)

lemma annual_savings_in_range:
  assumes "- FLOAT_OVERFLOW < 12 * ud_monthly_savings u"
    "12 * ud_monthly_savings u < FLOAT_OVERFLOW"
  shows "\<exists>a. annual_savings u = Inr (Finite a)"
  using after_tax_in_range [OF assms]
  by (auto simp: annual_savings_def after_tax_monthly_savings_def)

lemma annual_savings_mono:
  assumes "- FLOAT_OVERFLOW < 12 * s1" "s1 \<le> s2" "12 * s2 < FLOAT_OVERFLOW"
  shows "\<exists>a1 a2. annual_savings (u\<lparr>ud_monthly_savings := s1\<rparr>) = Inr (Finite a1)
            \<and> annual_savings (u\<lparr>ud_monthly_savings := s2\<rparr>) = Inr (Finite a2) \<and> a1 \<le> a2"
  using after_tax_mono_in_range [OF assms]
  by (auto simp: annual_savings_def after_tax_monthly_savings_def)

lemma annual_savings_returns: "\<exists>a. annual_savings u = Inr a"
proof -
  consider "FLOAT_OVERFLOW \<le> 12 * ud_monthly_savings u"
    | "12 * ud_monthly_savings u \<le> - FLOAT_OVERFLOW"
    | "- FLOAT_OVERFLOW < 12 * ud_monthly_savings u" "12 * ud_monthly_savings u < FLOAT_OVERFLOW"
    by linarith
  then show ?thesis
    using annual_savings_overflow annual_savings_negative_overflow annual_savings_in_range
    by cases blast+
qed

lemma plan_growth_positive: "0 < 1 + plan_expected_return"
  by (simp add: plan_expected_return_def settings_defs)

text \<open>The projected assets by the kind of the annual savings.\<close>

lemma total_projected_assets_now:
  assumes "years \<le> 0"
  shows "total_projected_assets u years
           = Inr (Finite (ud_cash_holdings u + current_investments u))"
  using assms annual_savings_returns [of u]
  by (auto simp: total_projected_assets_def calculate_future_savings_def future_value_def)

lemma total_projected_assets_Finite:
  assumes "annual_savings u = Inr (Finite a)"
  shows "\<exists>v. total_projected_assets u years = Inr (Finite v)"
proof -
  obtain w where "future_savings_loop (nat years) (Finite a) plan_expected_return
                    (Finite (current_investments u)) = Inr (Finite w)"
    using future_savings_loop_finite by blast
  then show ?thesis
    by (simp add: total_projected_assets_def calculate_future_savings_def assms)
qed

lemma total_projected_assets_NaN:
  assumes "annual_savings u = Inr NaN" "0 < years"
  shows "total_projected_assets u years = Inr NaN"
  using assms
  by (simp add: total_projected_assets_def calculate_future_savings_def
      future_savings_loop_NaN_Finite)

lemma total_projected_assets_NegInf:
  assumes "annual_savings u = Inr NegInf" "0 < years"
  shows "total_projected_assets u years = Inr NegInf"
  using assms plan_growth_positive
  by (simp add: total_projected_assets_def calculate_future_savings_def
      future_savings_loop_NegInf_Finite)

lemma total_projected_assets_mono:
  assumes "annual_savings u1 = Inr (Finite a1)" "annual_savings u2 = Inr (Finite a2)" "a1 \<le> a2"
    "ud_cash_holdings u1 = ud_cash_holdings u2" "current_investments u1 = current_investments u2"
    "total_projected_assets u1 years = Inr (Finite v1)"
    "total_projected_assets u2 years = Inr (Finite v2)"
  shows "v1 \<le> v2"
proof -
  obtain w1 where w1: "future_savings_loop (nat years) (Finite a1) plan_expected_return
                    (Finite (current_investments u1)) = Inr (Finite w1)"
    using future_savings_loop_finite by blast
  obtain w2 where w2: "future_savings_loop (nat years) (Finite a2) plan_expected_return
                    (Finite (current_investments u2)) = Inr (Finite w2)"
    using future_savings_loop_finite by blast
  have "w1 \<le> w2"
    using future_savings_loop_mono [OF _ assms(3) _ w1 w2] plan_growth_positive assms(5)
    by simp
  moreover have "v1 = future_value (ud_cash_holdings u1) plan_inflation_rate years + w1"
    using assms(6) w1
    by (simp add: total_projected_assets_def calculate_future_savings_def assms(1))
  moreover have "v2 = future_value (ud_cash_holdings u2) plan_inflation_rate years + w2"
    using assms(7) w2
    by (simp add: total_projected_assets_def calculate_future_savings_def assms(2))
  ultimately show ?thesis using assms(4) by simp
qed

lemma total_projected_assets_returns: "\<exists>t. total_projected_assets u years = Inr t"
proof (cases "years \<le> 0")
  case True
  then show ?thesis by (simp add: total_projected_assets_now)
next
  case False
  then have y: "0 < years" by simp
  consider "FLOAT_OVERFLOW \<le> 12 * ud_monthly_savings u"
    | "12 * ud_monthly_savings u \<le> - FLOAT_OVERFLOW"
    | "- FLOAT_OVERFLOW < 12 * ud_monthly_savings u" "12 * ud_monthly_savings u < FLOAT_OVERFLOW"
    by linarith
  then show ?thesis
  proof cases
    case 1
    then show ?thesis
      using total_projected_assets_NaN [OF annual_savings_overflow y] by blast
  next
    case 2
    then show ?thesis
      using total_projected_assets_NegInf [OF annual_savings_negative_overflow y] by blast
  next
    case 3
    then obtain a where "annual_savings u = Inr (Finite a)"
      using annual_savings_in_range by blast
    then show ?thesis using total_projected_assets_Finite by blast
  qed
qed

text \<open>The test raises only on a NaN, and then at every later candidate too.\<close>

lemma feasibility_test_raises:
  assumes "feasibility_test u years = Inl e"
  shows "e = InvalidOperation \<and> annual_savings u = Inr NaN \<and> 0 < years"
proof -
  obtain t where t: "total_projected_assets u years = Inr t"
    using total_projected_assets_returns by blast
  with assms have ge: "d_ge t (Finite (required_savings u years)) = Inl e"
    by (simp add: feasibility_test_def)
  then have nan: "t = NaN" and e: "e = InvalidOperation"
    by (auto simp: d_ge_def split: if_splits)
  have y: "0 < years"
  proof (rule ccontr)
    assume "\<not> 0 < years"
    then have "years \<le> 0" by simp
    from total_projected_assets_now [OF this] t nan show False by simp
  qed
  consider "FLOAT_OVERFLOW \<le> 12 * ud_monthly_savings u"
    | "12 * ud_monthly_savings u \<le> - FLOAT_OVERFLOW"
    | "- FLOAT_OVERFLOW < 12 * ud_monthly_savings u" "12 * ud_monthly_savings u < FLOAT_OVERFLOW"
    by linarith
  then have "annual_savings u = Inr NaN"
  proof cases
    case 1
    then show ?thesis by (rule annual_savings_overflow)
  next
    case 2
    from total_projected_assets_NegInf [OF annual_savings_negative_overflow [OF 2] y] t nan
    show ?thesis by simp
  next
    case 3
    then obtain a where a: "annual_savings u = Inr (Finite a)"
      using annual_savings_in_range by blast
    from total_projected_assets_Finite [OF a, of years] t nan show ?thesis by simp
  qed
  with e y show ?thesis by simp
qed

lemma feasibility_test_raises_later:
  assumes "feasibility_test u years = Inl e" "years \<le> years'"
  shows "feasibility_test u years' = Inl InvalidOperation"
proof -
  from feasibility_test_raises [OF assms(1)]
  have "annual_savings u = Inr NaN" "0 < years'" using assms(2) by simp_all
  from total_projected_assets_NaN [OF this]
  show ?thesis by (simp add: feasibility_test_def d_ge_def)
qed

text \<open>Larger monthly savings never turn a candidate that passes the test into one that
  fails it.\<close>

lemma feasibility_test_mono:
  assumes "s1 \<le> s2"
    "feasibility_test (u\<lparr>ud_monthly_savings := s1\<rparr>) years = Inr True"
  shows "feasibility_test (u\<lparr>ud_monthly_savings := s2\<rparr>) years \<noteq> Inr False"
proof (cases "years \<le> 0")
  case True
  have "feasibility_test (u\<lparr>ud_monthly_savings := s2\<rparr>) years
          = feasibility_test (u\<lparr>ud_monthly_savings := s1\<rparr>) years"
    by (simp add: feasibility_test_def total_projected_assets_now [OF True]
        current_investments_def required_savings_def lifestyle_factor_def)
  with assms(2) show ?thesis by simp
next
  case False
  then have y: "0 < years" by simp
  let ?u1 = "u\<lparr>ud_monthly_savings := s1\<rparr>" and ?u2 = "u\<lparr>ud_monthly_savings := s2\<rparr>"
  have req: "required_savings ?u2 years = required_savings ?u1 years"
    by (simp add: required_savings_def lifestyle_factor_def)
  have lo: "- FLOAT_OVERFLOW < 12 * s1"
  proof (rule ccontr)
    assume "\<not> - FLOAT_OVERFLOW < 12 * s1"
    then have "12 * ud_monthly_savings ?u1 \<le> - FLOAT_OVERFLOW" by simp
    from total_projected_assets_NegInf [OF annual_savings_negative_overflow [OF this] y]
    show False using assms(2) by (simp add: feasibility_test_def d_ge_def)
  qed
  show ?thesis
  proof (cases "12 * s2 < FLOAT_OVERFLOW")
    case True
    from annual_savings_mono [OF lo assms(1) True, of u]
    obtain a1 a2 where a: "annual_savings ?u1 = Inr (Finite a1)"
      "annual_savings ?u2 = Inr (Finite a2)" "a1 \<le> a2" by blast
    obtain v1 where v1: "total_projected_assets ?u1 years = Inr (Finite v1)"
      using total_projected_assets_Finite [OF a(1)] by blast
    obtain v2 where v2: "total_projected_assets ?u2 years = Inr (Finite v2)"
      using total_projected_assets_Finite [OF a(2)] by blast
    have "v1 \<le> v2"
      using total_projected_assets_mono [OF a _ _ v1 v2]
      by (simp add: current_investments_def)
    moreover have "required_savings ?u1 years \<le> v1"
      using assms(2) v1 by (simp add: feasibility_test_def d_ge_def)
    ultimately show ?thesis
      using v2 req by (simp add: feasibility_test_def d_ge_def)
  next
    case False
    then have "FLOAT_OVERFLOW \<le> 12 * ud_monthly_savings ?u2" by simp
    from total_projected_assets_NaN [OF annual_savings_overflow [OF this] y]
    show ?thesis by (simp add: feasibility_test_def d_ge_def)
  qed
qed

section \<open>Properties of the search loop\<close>

lemma plan_loop_over: "90 < st_retirement_age st \<Longrightarrow> plan_loop u st = Inr st"
  by (subst plan_loop.simps) simp

lemma plan_loop_hit:
  assumes "ud_age u \<le> st_retirement_age st" "st_retirement_age st \<le> 90"
    "total_projected_assets u (st_retirement_age st - ud_age u) = Inr t"
    "d_ge t (Finite (required_savings u (st_retirement_age st - ud_age u))) = Inr True"
  shows "plan_loop u st =
     Inr (st\<lparr>st_years_until_retirement := Some (st_retirement_age st - ud_age u),
        st_total_government_benefits :=
          Some (total_government_benefits (st_retirement_age st - ud_age u)),
        st_found_retirement_age := True,
        st_feasible_projected_savings := t,
        st_feasible_required_savings :=
          required_savings u (st_retirement_age st - ud_age u)\<rparr>)"
  using assms by (subst plan_loop.simps) (simp add: Let_def)

lemma plan_loop_miss:
  assumes "ud_age u \<le> st_retirement_age st" "st_retirement_age st \<le> 90"
    "feasibility_test u (st_retirement_age st - ud_age u) = Inr False"
  shows "plan_loop u st =
     plan_loop u
      (st\<lparr>st_years_until_retirement := Some (st_retirement_age st - ud_age u),
         st_total_government_benefits :=
           Some (total_government_benefits (st_retirement_age st - ud_age u)),
         st_retirement_age := st_retirement_age st + 1\<rparr>)"
  using assms
  by (subst plan_loop.simps) (auto simp: Let_def feasibility_test_def split: sum.splits)

lemma plan_loop_raise:
  assumes "ud_age u \<le> st_retirement_age st" "st_retirement_age st \<le> 90"
    "feasibility_test u (st_retirement_age st - ud_age u) = Inl e"
  shows "plan_loop u st = Inl e"
  using assms
  by (subst plan_loop.simps) (auto simp: Let_def feasibility_test_def split: sum.splits)

text \<open>The three ways the loop ends, from a state before whose candidate every test so far
  has failed: at the first candidate that passes the test, at the first candidate whose
  test raises, or past the ceiling.\<close>

lemma plan_loop_found:
  assumes "ud_age u \<le> st_retirement_age st" "st_retirement_age st \<le> b" "b \<le> 90"
    "\<forall>c. st_retirement_age st \<le> c \<and> c < b \<longrightarrow> feasibility_test u (c - ud_age u) = Inr False"
    "total_projected_assets u (b - ud_age u) = Inr t"
    "d_ge t (Finite (required_savings u (b - ud_age u))) = Inr True"
  shows "plan_loop u st =
     Inr (st\<lparr>st_years_until_retirement := Some (b - ud_age u),
        st_total_government_benefits := Some (total_government_benefits (b - ud_age u)),
        st_retirement_age := b,
        st_found_retirement_age := True,
        st_feasible_projected_savings := t,
        st_feasible_required_savings := required_savings u (b - ud_age u)\<rparr>)"
  using assms
proof (induction "nat (b - st_retirement_age st)" arbitrary: st)
  case 0
  then have "st_retirement_age st = b" by simp
  with 0 show ?case by (simp add: plan_loop_hit)
next
  case (Suc n)
  then have lt: "st_retirement_age st < b" by linarith
  let ?y = "st_retirement_age st - ud_age u"
  let ?st' = "st\<lparr>st_years_until_retirement := Some ?y,
                 st_total_government_benefits := Some (total_government_benefits ?y),
                 st_retirement_age := st_retirement_age st + 1\<rparr>"
  have "feasibility_test u ?y = Inr False" using Suc.prems(4) lt by simp
  then have step: "plan_loop u st = plan_loop u ?st'"
    using Suc.prems lt by (intro plan_loop_miss) simp_all
  have "plan_loop u ?st' =
     Inr (?st'\<lparr>st_years_until_retirement := Some (b - ud_age u),
        st_total_government_benefits := Some (total_government_benefits (b - ud_age u)),
        st_retirement_age := b,
        st_found_retirement_age := True,
        st_feasible_projected_savings := t,
        st_feasible_required_savings := required_savings u (b - ud_age u)\<rparr>)"
    apply (rule Suc.hyps(1))
    using Suc.hyps(2) Suc.prems lt by simp_all
  then show ?case unfolding step by simp
qed

lemma plan_loop_raises:
  assumes "ud_age u \<le> st_retirement_age st" "st_retirement_age st \<le> b" "b \<le> 90"
    "\<forall>c. st_retirement_age st \<le> c \<and> c < b \<longrightarrow> feasibility_test u (c - ud_age u) = Inr False"
    "feasibility_test u (b - ud_age u) = Inl e"
  shows "plan_loop u st = Inl e"
  using assms
proof (induction "nat (b - st_retirement_age st)" arbitrary: st)
  case 0
  then have "st_retirement_age st = b" by simp
  with 0 show ?case by (simp add: plan_loop_raise)
next
  case (Suc n)
  then have lt: "st_retirement_age st < b" by linarith
  let ?y = "st_retirement_age st - ud_age u"
  let ?st' = "st\<lparr>st_years_until_retirement := Some ?y,
                 st_total_government_benefits := Some (total_government_benefits ?y),
                 st_retirement_age := st_retirement_age st + 1\<rparr>"
  have "feasibility_test u ?y = Inr False" using Suc.prems(4) lt by simp
  then have step: "plan_loop u st = plan_loop u ?st'"
    using Suc.prems lt by (intro plan_loop_miss) simp_all
  have "plan_loop u ?st' = Inl e"
    apply (rule Suc.hyps(1))
    using Suc.hyps(2) Suc.prems lt by simp_all
  then show ?case unfolding step by simp
qed

lemma plan_loop_none:
  assumes "ud_age u \<le> st_retirement_age st" "st_retirement_age st \<le> 90"
    "\<forall>c. st_retirement_age st \<le> c \<and> c \<le> 90 \<longrightarrow> feasibility_test u (c - ud_age u) = Inr False"
  shows "plan_loop u st =
     Inr (st\<lparr>st_years_until_retirement := Some (90 - ud_age u),
        st_total_government_benefits := Some (total_government_benefits (90 - ud_age u)),
        st_retirement_age := 91\<rparr>)"
  using assms
proof (induction "nat (90 - st_retirement_age st)" arbitrary: st)
  case 0
  then have eq: "st_retirement_age st = 90" by simp
  then have "feasibility_test u (st_retirement_age st - ud_age u) = Inr False"
    using 0 by simp
  then show ?case using 0 eq by (simp add: plan_loop_miss plan_loop_over)
next
  case (Suc n)
  have nf: "feasibility_test u (st_retirement_age st - ud_age u) = Inr False"
    using Suc.prems by simp
  let ?y = "st_retirement_age st - ud_age u"
  let ?st' = "st\<lparr>st_years_until_retirement := Some ?y,
                 st_total_government_benefits := Some (total_government_benefits ?y),
                 st_retirement_age := st_retirement_age st + 1\<rparr>"
  have step: "plan_loop u st = plan_loop u ?st'"
    using nf Suc.prems by (simp add: plan_loop_miss)
  have lt: "st_retirement_age st < 90" using Suc.hyps(2) by linarith
  have "plan_loop u ?st' = Inr (?st'\<lparr>st_years_until_retirement := Some (90 - ud_age u),
        st_total_government_benefits := Some (total_government_benefits (90 - ud_age u)),
        st_retirement_age := 91\<rparr>)"
    apply (rule Suc.hyps(1))
    using Suc.hyps(2) Suc.prems lt by simp_all
  then show ?case unfolding step by simp
qed

text \<open>Every run of the search from the current age ends in one of the three ways.\<close>

lemma search_cases:
  assumes "ud_age u \<le> 90"
  obtains (found) b where "ud_age u \<le> b" "b \<le> 90"
      "\<forall>c. ud_age u \<le> c \<and> c < b \<longrightarrow> feasibility_test u (c - ud_age u) = Inr False"
      "feasibility_test u (b - ud_age u) = Inr True"
    | (raises) b e where "ud_age u \<le> b" "b \<le> 90"
      "\<forall>c. ud_age u \<le> c \<and> c < b \<longrightarrow> feasibility_test u (c - ud_age u) = Inr False"
      "feasibility_test u (b - ud_age u) = Inl e"
    | (none) "\<forall>c. ud_age u \<le> c \<and> c \<le> 90 \<longrightarrow> feasibility_test u (c - ud_age u) = Inr False"
proof (cases "\<exists>k. int k \<le> 90 - ud_age u \<and> feasibility_test u (int k) \<noteq> Inr False")
  case True
  define k where "k = (LEAST k. int k \<le> 90 - ud_age u \<and> feasibility_test u (int k) \<noteq> Inr False)"
  have k: "int k \<le> 90 - ud_age u" "feasibility_test u (int k) \<noteq> Inr False"
    using LeastI_ex [OF True] unfolding k_def by simp_all
  have before: "feasibility_test u (int j) = Inr False" if "j < k" for j
  proof -
    have "\<not> (int j \<le> 90 - ud_age u \<and> feasibility_test u (int j) \<noteq> Inr False)"
      using not_less_Least that unfolding k_def by blast
    moreover have "int j \<le> 90 - ud_age u" using that k(1) by simp
    ultimately show ?thesis by simp
  qed
  let ?b = "ud_age u + int k"
  have pre: "\<forall>c. ud_age u \<le> c \<and> c < ?b \<longrightarrow> feasibility_test u (c - ud_age u) = Inr False"
  proof (intro allI impI)
    fix c assume c: "ud_age u \<le> c \<and> c < ?b"
    then have "nat (c - ud_age u) < k" by linarith
    from before [OF this] c show "feasibility_test u (c - ud_age u) = Inr False" by simp
  qed
  have range: "ud_age u \<le> ?b" "?b \<le> 90" using k(1) by simp_all
  show ?thesis
  proof (cases "feasibility_test u (int k)")
    case (Inl e)
    then show ?thesis using raises [of ?b e] range pre by simp
  next
    case (Inr v)
    with k(2) have "feasibility_test u (int k) = Inr True" by simp
    then show ?thesis using found [of ?b] range pre by simp
  qed
next
  case False
  have "\<forall>c. ud_age u \<le> c \<and> c \<le> 90 \<longrightarrow> feasibility_test u (c - ud_age u) = Inr False"
  proof (intro allI impI)
    fix c assume c: "ud_age u \<le> c \<and> c \<le> 90"
    then have "int (nat (c - ud_age u)) \<le> 90 - ud_age u" by simp
    with False have "feasibility_test u (int (nat (c - ud_age u))) = Inr False" by blast
    with c show "feasibility_test u (c - ud_age u) = Inr False" by simp
  qed
  then show ?thesis by (rule none)
qed

section \<open>Properties of the plan\<close>

lemma FLOAT_OVERFLOW_pos: "0 < FLOAT_OVERFLOW"
  using FLOAT_OVERFLOW_big by simp

lemma retirement_incomes_returns: "\<exists>p. retirement_incomes st g = Inr p"
  by (cases "st_feasible_projected_savings st")
     (simp_all add: retirement_incomes_def settings_defs inf_times_def)

lemma savings_gap_of_passed:
  assumes "d_ge (st_feasible_projected_savings st) (Finite (st_feasible_required_savings st))
             = Inr True"
  shows "savings_gap_of st = Inr (Finite 0)"
  using assms FLOAT_OVERFLOW_pos
  by (cases "st_feasible_projected_savings st")
     (simp_all add: savings_gap_of_def d_ge_def d_sub_def d_max_def d_lt_def fl_def)

lemma savings_gap_of_initial:
  assumes "st_feasible_projected_savings st = Finite p" "st_feasible_required_savings st = 0"
  shows "savings_gap_of st = Inr (fl (max 0 (0 - p)))"
  using assms
  by (simp add: savings_gap_of_def d_sub_def d_max_def d_lt_def max_def)

lemma plan_found:
  assumes "ud_age u \<le> b" "b \<le> 90"
    "\<forall>c. ud_age u \<le> c \<and> c < b \<longrightarrow> feasibility_test u (c - ud_age u) = Inr False"
    "feasibility_test u (b - ud_age u) = Inr True"
  shows "\<exists>r t. calculate_current_retirement_plan u = Inr r
     \<and> plan_retirement_age r = b
     \<and> total_projected_assets u (b - ud_age u) = Inr t
     \<and> plan_projected_savings r = to_float t
     \<and> plan_required_savings r = fl (required_savings u (b - ud_age u))
     \<and> plan_savings_gap r = Finite 0"
proof -
  obtain t where t: "total_projected_assets u (b - ud_age u) = Inr t"
    using total_projected_assets_returns by blast
  with assms(4) have ge: "d_ge t (Finite (required_savings u (b - ud_age u))) = Inr True"
    by (simp add: feasibility_test_def)
  let ?st = "(plan_init u)\<lparr>st_years_until_retirement := Some (b - ud_age u),
        st_total_government_benefits := Some (total_government_benefits (b - ud_age u)),
        st_retirement_age := b,
        st_found_retirement_age := True,
        st_feasible_projected_savings := t,
        st_feasible_required_savings := required_savings u (b - ud_age u)\<rparr>"
  have loop: "plan_loop u (plan_init u) = Inr ?st"
    using assms t ge by (intro plan_loop_found) (simp_all add: plan_init_def)
  obtain a where a: "annual_savings u = Inr a" using annual_savings_returns by blast
  obtain p where p: "retirement_incomes ?st (total_government_benefits (b - ud_age u)) = Inr p"
    using retirement_incomes_returns by blast
  have gap: "savings_gap_of ?st = Inr (Finite 0)"
    using ge by (intro savings_gap_of_passed) simp
  show ?thesis
    unfolding calculate_current_retirement_plan_def a loop
    using t p gap
    by (cases p) (simp add: plan_clamp_def plan_response_def Let_def)
qed

lemma plan_raises:
  assumes "ud_age u \<le> b" "b \<le> 90"
    "\<forall>c. ud_age u \<le> c \<and> c < b \<longrightarrow> feasibility_test u (c - ud_age u) = Inr False"
    "feasibility_test u (b - ud_age u) = Inl e"
  shows "calculate_current_retirement_plan u = Inl e"
proof -
  have loop: "plan_loop u (plan_init u) = Inl e"
    using assms by (intro plan_loop_raises [of u _ b]) (simp_all add: plan_init_def)
  obtain a where a: "annual_savings u = Inr a" using annual_savings_returns by blast
  show ?thesis
    unfolding calculate_current_retirement_plan_def a loop by simp
qed

lemma plan_none:
  assumes "ud_age u \<le> 90"
    "\<forall>c. ud_age u \<le> c \<and> c \<le> 90 \<longrightarrow> feasibility_test u (c - ud_age u) = Inr False"
  shows "\<exists>r. calculate_current_retirement_plan u = Inr r
     \<and> plan_retirement_age r = 90
     \<and> plan_projected_savings r = fl (ud_cash_holdings u + current_investments u)
     \<and> plan_required_savings r = Finite 0
     \<and> plan_savings_gap r = fl (max 0 (0 - (ud_cash_holdings u + current_investments u)))"
proof -
  let ?st = "(plan_init u)\<lparr>st_years_until_retirement := Some (90 - ud_age u),
        st_total_government_benefits := Some (total_government_benefits (90 - ud_age u)),
        st_retirement_age := 91\<rparr>"
  let ?cl = "plan_clamp u ?st"
  have loop: "plan_loop u (plan_init u) = Inr ?st"
    using assms by (intro plan_loop_none) (simp_all add: plan_init_def)
  obtain a where a: "annual_savings u = Inr a" using annual_savings_returns by blast
  obtain p where p: "retirement_incomes ?cl (total_government_benefits (90 - ud_age u)) = Inr p"
    using retirement_incomes_returns by blast
  have gap: "savings_gap_of ?cl
               = Inr (fl (max 0 (0 - (ud_cash_holdings u + current_investments u))))"
    by (intro savings_gap_of_initial) (simp_all add: plan_clamp_def plan_init_def)
  have cl: "st_total_government_benefits ?cl = Some (total_government_benefits (90 - ud_age u))"
    "st_years_until_retirement ?cl = Some (90 - ud_age u)"
    "st_retirement_age ?cl = 90"
    "st_feasible_projected_savings ?cl = Finite (ud_cash_holdings u + current_investments u)"
    "st_feasible_required_savings ?cl = 0"
    by (simp_all add: plan_clamp_def plan_init_def)
  show ?thesis
    unfolding calculate_current_retirement_plan_def a loop
    using p gap cl FLOAT_OVERFLOW_pos
    by (cases p) (simp add: plan_response_def Let_def fl_def)
qed

lemma plan_above_ceiling:
  assumes "90 < ud_age u"
  shows "calculate_current_retirement_plan u = Inl UnboundLocalError"
proof -
  have loop: "plan_loop u (plan_init u) = Inr (plan_init u)"
    using assms by (intro plan_loop_over) (simp add: plan_init_def)
  obtain a where a: "annual_savings u = Inr a" using annual_savings_returns by blast
  show ?thesis
    unfolding calculate_current_retirement_plan_def a loop
    by (simp add: plan_clamp_def plan_response_def plan_init_def Let_def)
qed

lemma plan_returns_in_range:
  assumes "ud_age u \<le> 90" "- FLOAT_OVERFLOW < 12 * ud_monthly_savings u"
    "12 * ud_monthly_savings u < FLOAT_OVERFLOW"
  shows "\<exists>r. calculate_current_retirement_plan u = Inr r"
  using assms(1)
proof (cases rule: search_cases)
  case (found b)
  from plan_found [OF this] show ?thesis by blast
next
  case (raises b e)
  from feasibility_test_raises [OF raises(4)] annual_savings_in_range [OF assms(2,3)]
  show ?thesis by simp
next
  case none
  from plan_none [OF assms(1) none] show ?thesis by blast
qed

text \<open>What a returned plan tells about the search.\<close>

lemma plan_returned:
  assumes "calculate_current_retirement_plan u = Inr r"
  obtains (found) "ud_age u \<le> plan_retirement_age r" "plan_retirement_age r \<le> 90"
      "\<forall>c. ud_age u \<le> c \<and> c < plan_retirement_age r
           \<longrightarrow> feasibility_test u (c - ud_age u) = Inr False"
      "feasibility_test u (plan_retirement_age r - ud_age u) = Inr True"
      "plan_savings_gap r = Finite 0"
    | (none) "ud_age u \<le> 90" "plan_retirement_age r = 90"
      "\<forall>c. ud_age u \<le> c \<and> c \<le> 90 \<longrightarrow> feasibility_test u (c - ud_age u) = Inr False"
      "plan_savings_gap r = fl (max 0 (0 - (ud_cash_holdings u + current_investments u)))"
proof -
  have age: "ud_age u \<le> 90"
  proof (rule ccontr)
    assume "\<not> ud_age u \<le> 90"
    then have "90 < ud_age u" by simp
    from plan_above_ceiling [OF this] assms show False by simp
  qed
  from age show ?thesis
  proof (cases rule: search_cases)
    case (found b)
    from plan_found [OF found] assms
    have "plan_retirement_age r = b" "plan_savings_gap r = Finite 0" by auto
    with found show ?thesis using that(1) by simp
  next
    case (raises b e)
    from plan_raises [OF raises] assms show ?thesis by simp
  next
    case none
    from plan_none [OF age none] assms
    have "plan_retirement_age r = 90"
      "plan_savings_gap r = fl (max 0 (0 - (ud_cash_holdings u + current_investments u)))"
      by auto
    with age none show ?thesis using that(2) by simp
  qed
qed

lemma fl_nonneg: "0 \<le> x \<Longrightarrow> f_le (Finite 0) (fl x)"
  using FLOAT_OVERFLOW_pos by (simp add: fl_def f_le_def)

lemma f_le_refl_fl: "f_le (fl x) (fl x)"
  by (simp add: fl_def f_le_def)

section \<open>The claims about the feasibility search and the tax model\<close>

text \<open>
  C1. When no candidate age up to the ceiling of 90 is feasible, the plan is said to return
  the age 90 with a positive savings gap, the shortfall at the ceiling. At
  \<open>late_profile\<close> no age from 88 to 90 is feasible and the shortfall at 90 is 846200, yet
  the function returns the age 90 with a savings gap of 0: the required and projected
  savings it reports are the initial values, which the loop never replaced.
\<close>

theorem no_feasible_age_reports_zero_gap:
  "\<not> feasible late_profile 88 \<and> \<not> feasible late_profile 89 \<and> \<not> feasible late_profile 90
   \<and> (case calculate_current_retirement_plan late_profile of
         Inl e \<Rightarrow> False
       | Inr r \<Rightarrow> plan_retirement_age r = 90 \<and> plan_savings_gap r = Finite 0
                 \<and> plan_required_savings r = Finite 0
                 \<and> plan_projected_savings r = Finite 40000)
   \<and> total_projected_assets late_profile (90 - 88) = Inr (Finite 44956)
   \<and> required_savings late_profile (90 - 88) = 891156
   \<and> (891156::rat) - 44956 = 846200"
  by code_simp

text \<open>
  C2. For a profile with non-negative financial fields the plan is said never to raise,
  also when the current age is at or above the ceiling. At \<open>overage_profile\<close>, of age 91,
  the loop body never runs, the local \<^verbatim>\<open>total_government_benefits\<close> is never bound, and
  reading it after the loop raises \<^verbatim>\<open>UnboundLocalError\<close>.
\<close>

theorem plan_raises_past_ceiling:
  "calculate_current_retirement_plan overage_profile = Inl UnboundLocalError"
  by code_simp

text \<open>
  C4. If some candidate age between the current age and 90 is feasible, the plan returns
  the smallest feasible age, and its projected and required savings are the values
  computed at exactly that age.
\<close>

theorem plan_returns_earliest_feasible_age:
  assumes "ud_age u \<le> a" "a \<le> 90" "feasible u a"
  shows "\<exists>r. calculate_current_retirement_plan u = Inr r
     \<and> ud_age u \<le> plan_retirement_age r \<and> plan_retirement_age r \<le> a
     \<and> feasible u (plan_retirement_age r)
     \<and> (\<forall>b. ud_age u \<le> b \<and> b < plan_retirement_age r \<longrightarrow> \<not> feasible u b)
     \<and> (\<exists>t. total_projected_assets u (plan_retirement_age r - ud_age u) = Inr t
            \<and> plan_projected_savings r = to_float t)
     \<and> plan_required_savings r = fl (required_savings u (plan_retirement_age r - ud_age u))"
proof -
  have age: "ud_age u \<le> 90" using assms by simp
  have fa: "feasibility_test u (a - ud_age u) = Inr True"
    using assms(3) by (simp add: feasible_def)
  from age show ?thesis
  proof (cases rule: search_cases)
    case (found b)
    have ba: "b \<le> a"
    proof (rule ccontr)
      assume "\<not> b \<le> a"
      then have "feasibility_test u (a - ud_age u) = Inr False"
        using found(3) assms(1) by simp
      with fa show False by simp
    qed
    from plan_found [OF found] obtain r t where r:
      "calculate_current_retirement_plan u = Inr r" "plan_retirement_age r = b"
      "total_projected_assets u (b - ud_age u) = Inr t"
      "plan_projected_savings r = to_float t"
      "plan_required_savings r = fl (required_savings u (b - ud_age u))"
      by blast
    have "\<forall>c. ud_age u \<le> c \<and> c < b \<longrightarrow> \<not> feasible u c"
      using found(3) by (simp add: feasible_def)
    moreover have "feasible u b" using found(4) by (simp add: feasible_def)
    ultimately show ?thesis using r found(1) ba by auto
  next
    case (raises b e)
    have "b \<le> a"
    proof (rule ccontr)
      assume "\<not> b \<le> a"
      then have "feasibility_test u (a - ud_age u) = Inr False"
        using raises(3) assms(1) by simp
      with fa show False by simp
    qed
    then have "b - ud_age u \<le> a - ud_age u" by simp
    from feasibility_test_raises_later [OF raises(4) this] fa show ?thesis by simp
  next
    case none
    then have "feasibility_test u (a - ud_age u) = Inr False" using assms by simp
    with fa show ?thesis by simp
  qed
qed

theorem plan_returns_earliest_feasible_age_witness:
  "ud_age near_profile \<le> 64 \<and> (64::int) \<le> 90 \<and> feasible near_profile 64
   \<and> (\<exists>r. calculate_current_retirement_plan near_profile = Inr r
     \<and> ud_age near_profile \<le> plan_retirement_age r \<and> plan_retirement_age r \<le> 64
     \<and> feasible near_profile (plan_retirement_age r)
     \<and> (\<forall>b. ud_age near_profile \<le> b \<and> b < plan_retirement_age r
            \<longrightarrow> \<not> feasible near_profile b)
     \<and> (\<exists>t. total_projected_assets near_profile
                (plan_retirement_age r - ud_age near_profile) = Inr t
            \<and> plan_projected_savings r = to_float t)
     \<and> plan_required_savings r
         = fl (required_savings near_profile (plan_retirement_age r - ud_age near_profile)))"
proof -
  have h1: "ud_age near_profile \<le> 64" by (simp add: near_profile_def)
  have h2: "(64::int) \<le> 90" by simp
  have h3: "feasible near_profile 64" by code_simp
  show ?thesis
    using h1 h2 h3 plan_returns_earliest_feasible_age [OF h1 h2 h3] by blast
qed

text \<open>
  C5. Of two inputs that differ only in the monthly savings, the one with the larger
  monthly savings gets a retirement age and a savings gap that are no larger, whenever
  both calls return a plan.
\<close>

theorem plan_monotone_in_monthly_savings:
  assumes "s1 \<le> s2"
    "calculate_current_retirement_plan (u\<lparr>ud_monthly_savings := s1\<rparr>) = Inr r1"
    "calculate_current_retirement_plan (u\<lparr>ud_monthly_savings := s2\<rparr>) = Inr r2"
  shows "plan_retirement_age r2 \<le> plan_retirement_age r1
       \<and> f_le (plan_savings_gap r2) (plan_savings_gap r1)"
proof -
  let ?u1 = "u\<lparr>ud_monthly_savings := s1\<rparr>" and ?u2 = "u\<lparr>ud_monthly_savings := s2\<rparr>"
  have same: "ud_cash_holdings ?u1 + current_investments ?u1
               = ud_cash_holdings ?u2 + current_investments ?u2"
    by (simp add: current_investments_def)
  from assms(2) show ?thesis
  proof (cases rule: plan_returned)
    case found
    note f1 = found
    have pass2: "feasibility_test ?u2 (plan_retirement_age r1 - ud_age ?u2) \<noteq> Inr False"
      using feasibility_test_mono [OF assms(1), of u] f1(4) by simp
    from assms(3) show ?thesis
    proof (cases rule: plan_returned)
      case found
      have "plan_retirement_age r2 \<le> plan_retirement_age r1"
      proof (rule ccontr)
        assume "\<not> plan_retirement_age r2 \<le> plan_retirement_age r1"
        then have "feasibility_test ?u2 (plan_retirement_age r1 - ud_age ?u2) = Inr False"
          using found(3) f1(1) by simp
        with pass2 show False by simp
      qed
      with found(5) f1(5) show ?thesis by (simp add: f_le_def)
    next
      case none
      then have "feasibility_test ?u2 (plan_retirement_age r1 - ud_age ?u2) = Inr False"
        using f1(1,2) by simp
      with pass2 show ?thesis by simp
    qed
  next
    case none
    note n1 = none
    from assms(3) show ?thesis
    proof (cases rule: plan_returned)
      case found
      have "f_le (Finite 0) (plan_savings_gap r1)"
        unfolding n1(4) by (intro fl_nonneg) simp
      with found(2,5) n1(2) show ?thesis by simp
    next
      case none
      have "plan_savings_gap r2 = plan_savings_gap r1"
        unfolding none(4) n1(4) same ..
      moreover have "f_le (plan_savings_gap r1) (plan_savings_gap r1)"
        unfolding n1(4) by (rule f_le_refl_fl)
      ultimately show ?thesis using none(2) n1(2) by simp
    qed
  qed
qed

theorem plan_monotone_in_monthly_savings_witness:
  "(1000::rat) \<le> 2000
   \<and> (\<exists>r1 r2.
        calculate_current_retirement_plan (near_profile\<lparr>ud_monthly_savings := 1000\<rparr>) = Inr r1
      \<and> calculate_current_retirement_plan (near_profile\<lparr>ud_monthly_savings := 2000\<rparr>) = Inr r2
      \<and> plan_retirement_age r2 \<le> plan_retirement_age r1
      \<and> f_le (plan_savings_gap r2) (plan_savings_gap r1))"
proof -
  have h1: "(1000::rat) \<le> 2000" by simp
  have "\<exists>r. calculate_current_retirement_plan (near_profile\<lparr>ud_monthly_savings := 1000\<rparr>) = Inr r"
    using FLOAT_OVERFLOW_big
    by (intro plan_returns_in_range) (simp_all add: near_profile_def)
  then obtain r1 where
    r1: "calculate_current_retirement_plan (near_profile\<lparr>ud_monthly_savings := 1000\<rparr>) = Inr r1"
    by blast
  have "\<exists>r. calculate_current_retirement_plan (near_profile\<lparr>ud_monthly_savings := 2000\<rparr>) = Inr r"
    using FLOAT_OVERFLOW_big
    by (intro plan_returns_in_range) (simp_all add: near_profile_def)
  then obtain r2 where
    r2: "calculate_current_retirement_plan (near_profile\<lparr>ud_monthly_savings := 2000\<rparr>) = Inr r2"
    by blast
  from plan_monotone_in_monthly_savings [OF h1 r1 r2] h1 r1 r2
  show ?thesis by blast
qed

text \<open>
  C6. The after-tax monthly income is said to be non-decreasing on all non-negative
  incomes. It is not where the annual income overflows a double: the tax then is an
  infinity, the income after tax a NaN, and no comparison with a NaN holds.
\<close>

theorem after_tax_income_overflow_counterexample:
  "f_le (Finite 0) (Finite (10 ^ 307))
   \<and> f_le (Finite (10 ^ 307)) (Finite (15 * 10 ^ 306))
   \<and> calculate_after_tax_income (Finite (15 * 10 ^ 306)) = NaN
   \<and> \<not> f_le (calculate_after_tax_income (Finite (10 ^ 307)))
            (calculate_after_tax_income (Finite (15 * 10 ^ 306)))"
proof -
  have le: "f_le (Finite 0) (Finite (10 ^ 307))"
    "f_le (Finite (10 ^ 307)) (Finite (15 * 10 ^ 306))"
    by (simp_all add: f_le_def)
  have fin: "fl (15 * 10 ^ 306) = Finite (15 * 10 ^ 306)"
    by (simp add: fl_def FLOAT_OVERFLOW_def)
  have "FLOAT_OVERFLOW \<le> 12 * (15 * 10 ^ 306)"
    by (simp add: FLOAT_OVERFLOW_def)
  from after_tax_overflow [OF this]
  have nan: "calculate_after_tax_income (Finite (15 * 10 ^ 306)) = NaN"
    unfolding fin .
  then have "\<not> f_le (calculate_after_tax_income (Finite (10 ^ 307)))
            (calculate_after_tax_income (Finite (15 * 10 ^ 306)))"
    by (simp add: f_le_def)
  with le nan show ?thesis by blast
qed

text \<open>
  C6, as amended. The after-tax monthly income is non-decreasing on the non-negative
  incomes whose annual figure stays below the overflow threshold of a double, and it is 0
  at 0.
\<close>

theorem after_tax_income_nondecreasing_below_overflow:
  "(0 \<le> x \<and> x \<le> y \<and> 12 * y < FLOAT_OVERFLOW \<longrightarrow>
      f_le (calculate_after_tax_income (Finite x)) (calculate_after_tax_income (Finite y)))
   \<and> calculate_after_tax_income (Finite 0) = Finite 0"
proof (intro conjI impI)
  assume a: "0 \<le> x \<and> x \<le> y \<and> 12 * y < FLOAT_OVERFLOW"
  then have lo: "- FLOAT_OVERFLOW < 12 * x" using FLOAT_OVERFLOW_pos by linarith
  from a have xy: "x \<le> y" and hi: "12 * y < FLOAT_OVERFLOW" by simp_all
  have fx: "fl x = Finite x" using a FLOAT_OVERFLOW_pos by (intro fl_Finite) linarith+
  have fy: "fl y = Finite y" using a FLOAT_OVERFLOW_pos by (intro fl_Finite) linarith+
  from after_tax_mono_in_range [OF lo xy hi]
  show "f_le (calculate_after_tax_income (Finite x)) (calculate_after_tax_income (Finite y))"
    unfolding fx fy by (auto simp: f_le_def)
next
  show "calculate_after_tax_income (Finite 0) = Finite 0"
    using FLOAT_OVERFLOW_pos
    by (simp add: calculate_after_tax_income_def tax_brackets_def f_gt_def f_sub_def fl_def)
qed

theorem after_tax_income_nondecreasing_below_overflow_witness:
  "(0::rat) \<le> 5000 \<and> (5000::rat) \<le> 6000 \<and> 12 * (6000::rat) < FLOAT_OVERFLOW
   \<and> f_le (calculate_after_tax_income (Finite 5000)) (calculate_after_tax_income (Finite 6000))
   \<and> calculate_after_tax_income (Finite 5000) = Finite (10154537 / 2400)
   \<and> calculate_after_tax_income (Finite 6000) = Finite (12062537 / 2400)
   \<and> calculate_after_tax_income (Finite 0) = Finite 0"
proof -
  have h: "(0::rat) \<le> 5000 \<and> (5000::rat) \<le> 6000 \<and> 12 * (6000::rat) < FLOAT_OVERFLOW"
    using FLOAT_OVERFLOW_big by simp
  have v1: "calculate_after_tax_income (Finite 5000) = Finite (10154537 / 2400)" by code_simp
  have v2: "calculate_after_tax_income (Finite 6000) = Finite (12062537 / 2400)" by code_simp
  from after_tax_income_nondecreasing_below_overflow [of 5000 6000] h v1 v2
  show ?thesis by blast
qed

end
